theory Spec2Isabelle
  imports Complex_Main
begin

section \<open>Data model of \<^verbatim>\<open>src/python/main.py\<close>\<close>

text \<open>
  The program reads JSON objects returned by the node and indexes them by key. A decoded
  transaction is a dictionary with the lists \<^verbatim>\<open>vin\<close> and \<^verbatim>\<open>vout\<close>; an output is a
  dictionary with \<^verbatim>\<open>value\<close> and \<^verbatim>\<open>scriptPubKey\<close>; the script dictionary may or may not
  have the key \<^verbatim>\<open>addresses\<close> (the source tests \<^verbatim>\<open>'addresses' in script_pubkey\<close>), so that
  key is optional here and its list may be empty. An input either names a prior output
  (\<^verbatim>\<open>txid\<close>, \<^verbatim>\<open>vout\<close>) or is a coinbase input, which has no \<^verbatim>\<open>txid\<close> key.

  Every exception of the source is a value of \<open>error\<close>. \<open>AttributeError t\<close> is the failed
  lookup of \<^verbatim>\<open>is_integer\<close> on a value of type \<open>t\<close>, \<open>TypeError m\<close> carries its message.
  \<open>AddressResolutionError\<close> is the exception named by the specification; \<^verbatim>\<open>main.py\<close>
  defines no exception class, and no function below returns it.
\<close>

datatype error =
    JSONRPCException string
  | KeyError string
  | IndexError
  | OSError
  | AttributeError string
  | TypeError string
  | AddressResolutionError

text \<open>
  Amounts are Python numbers. The literal \<^verbatim>\<open>0\<close> of the source is an \<^verbatim>\<open>int\<close>. A JSON number
  with a fraction is what the decoder of the RPC library makes of it: a \<^verbatim>\<open>float\<close> with the
  standard decoder, a \<^verbatim>\<open>decimal.Decimal\<close> when the library decodes with
  \<^verbatim>\<open>parse_float=decimal.Decimal\<close>. \<open>PyFloat r\<close> is the float of value \<open>r\<close>; the rounding of
  float addition and subtraction is not modelled. \<open>PyDecimal c k\<close> is the decimal with
  coefficient \<open>c\<close> and exponent \<open>-k\<close>, as \<^verbatim>\<open>50.00000000\<close> is \<open>PyDecimal 5000000000 8\<close>;
  the context precision of 28 digits and the negative zero are not modelled.
\<close>

datatype pynum = PyInt int | PyFloat rat | PyDecimal int nat

fun type_name :: "pynum \<Rightarrow> string" where
  "type_name (PyInt a) = ''int''"
| "type_name (PyFloat x) = ''float''"
| "type_name (PyDecimal c k) = ''decimal.Decimal''"

definition quote :: "string \<Rightarrow> string" where
  "quote s = [CHR 0x27] @ s @ [CHR 0x27]"

text \<open>
  The value of \<^verbatim>\<open>a + b\<close> and of \<^verbatim>\<open>a - b\<close> where Python computes one. An \<^verbatim>\<open>int\<close> is converted
  to the other operand's type; two decimals are brought to the smaller exponent. A float
  and a decimal have no sum: there \<open>py_add\<close> and \<open>py_sub\<close> are left unspecified, and
  \<open>py_plus\<close> and \<open>py_minus\<close> below raise before calling them.
\<close>

fun py_add :: "pynum \<Rightarrow> pynum \<Rightarrow> pynum" where
  "py_add (PyInt a) (PyInt b) = PyInt (a + b)"
| "py_add (PyInt a) (PyFloat y) = PyFloat (of_int a + y)"
| "py_add (PyFloat x) (PyInt b) = PyFloat (x + of_int b)"
| "py_add (PyFloat x) (PyFloat y) = PyFloat (x + y)"
| "py_add (PyInt a) (PyDecimal d l) = PyDecimal (a * 10 ^ l + d) l"
| "py_add (PyDecimal c k) (PyInt b) = PyDecimal (c + b * 10 ^ k) k"
| "py_add (PyDecimal c k) (PyDecimal d l) =
     PyDecimal (c * 10 ^ (max k l - k) + d * 10 ^ (max k l - l)) (max k l)"

fun py_sub :: "pynum \<Rightarrow> pynum \<Rightarrow> pynum" where
  "py_sub (PyInt a) (PyInt b) = PyInt (a - b)"
| "py_sub (PyInt a) (PyFloat y) = PyFloat (of_int a - y)"
| "py_sub (PyFloat x) (PyInt b) = PyFloat (x - of_int b)"
| "py_sub (PyFloat x) (PyFloat y) = PyFloat (x - y)"
| "py_sub (PyInt a) (PyDecimal d l) = PyDecimal (a * 10 ^ l - d) l"
| "py_sub (PyDecimal c k) (PyInt b) = PyDecimal (c - b * 10 ^ k) k"
| "py_sub (PyDecimal c k) (PyDecimal d l) =
     PyDecimal (c * 10 ^ (max k l - k) - d * 10 ^ (max k l - l)) (max k l)"

text \<open>\<^verbatim>\<open>a + b\<close> and \<^verbatim>\<open>a - b\<close> as Python runs them: a float and a decimal raise \<^verbatim>\<open>TypeError\<close>.\<close>

fun mixed :: "pynum \<Rightarrow> pynum \<Rightarrow> bool" where
  "mixed (PyFloat x) (PyDecimal d l) = True"
| "mixed (PyDecimal c k) (PyFloat y) = True"
| "mixed a b = False"

definition py_plus :: "pynum \<Rightarrow> pynum \<Rightarrow> error + pynum" where
  "py_plus a b =
     (if mixed a b
      then Inl (TypeError (''unsupported operand type(s) for +: '' @ quote (type_name a)
                             @ '' and '' @ quote (type_name b)))
      else Inr (py_add a b))"

definition py_minus :: "pynum \<Rightarrow> pynum \<Rightarrow> error + pynum" where
  "py_minus a b =
     (if mixed a b
      then Inl (TypeError (''unsupported operand type(s) for -: '' @ quote (type_name a)
                             @ '' and '' @ quote (type_name b)))
      else Inr (py_sub a b))"

text \<open>
  What \<^verbatim>\<open>x.is_integer()\<close> returns where the method exists: whether a float has no
  fraction; true of an \<^verbatim>\<open>int\<close>. A \<^verbatim>\<open>decimal.Decimal\<close> has no such method, so there is no
  equation for it; whether the call can be made at all is decided by \<open>call_is_integer\<close>
  below.
\<close>

fun is_integer :: "pynum \<Rightarrow> bool" where
  "is_integer (PyInt a) = True"
| "is_integer (PyFloat x) = (of_int \<lfloor>x\<rfloor> = x)"

text \<open>\<^verbatim>\<open>int(x)\<close> truncates a float or a decimal towards zero.\<close>

fun py_int :: "pynum \<Rightarrow> int" where
  "py_int (PyInt a) = a"
| "py_int (PyFloat x) = (if x < 0 then - \<lfloor>- x\<rfloor> else \<lfloor>x\<rfloor>)"
| "py_int (PyDecimal c k) = (if c < 0 then - ((- c) div 10 ^ k) else c div 10 ^ k)"

record script_pub_key =
  addresses :: "string list option"

record tx_out =
  out_value :: pynum
  scriptPubKey :: script_pub_key

datatype tx_in = TxIn (in_txid: string) (in_vout: nat) | CoinbaseIn

record decoded_tx =
  vin :: "tx_in list"
  vout :: "tx_out list"

record block_info =
  height :: int

text \<open>
  The RPC proxy: each call returns its result or raises. \<^verbatim>\<open>getrawtransaction\<close> yields the
  raw hex of a transaction, \<^verbatim>\<open>decoderawtransaction\<close> decodes it.
\<close>

record client =
  getrawtransaction :: "string \<Rightarrow> error + string"
  decoderawtransaction :: "string \<Rightarrow> error + decoded_tx"
  getblock :: "string \<Rightarrow> error + block_info"

section \<open>Input resolution and fee\<close>

text \<open>
  The three lines both \<^verbatim>\<open>calculate_transaction_fee\<close> and \<^verbatim>\<open>extract_input_details\<close> run
  on an input: fetch the prior transaction, decode it, index its outputs.
\<close>

definition prev_output :: "client \<Rightarrow> tx_in \<Rightarrow> error + tx_out" where
  "prev_output c i =
     (case i of
        CoinbaseIn \<Rightarrow> Inl (KeyError ''txid'')
      | TxIn t n \<Rightarrow>
          (case getrawtransaction c t of
             Inl e \<Rightarrow> Inl e
           | Inr prev_tx \<Rightarrow>
               (case decoderawtransaction c prev_tx of
                  Inl e \<Rightarrow> Inl e
                | Inr prev_decoded \<Rightarrow>
                    if n < length (vout prev_decoded)
                    then Inr (vout prev_decoded ! n)
                    else Inl IndexError)))"

text \<open>The loop of \<^verbatim>\<open>calculate_transaction_fee\<close> over \<^verbatim>\<open>decoded_tx['vin']\<close>.\<close>

fun sum_inputs :: "client \<Rightarrow> tx_in list \<Rightarrow> pynum \<Rightarrow> error + pynum" where
  "sum_inputs c [] total_input = Inr total_input"
| "sum_inputs c (i # is) total_input =
     (case prev_output c i of
        Inl e \<Rightarrow> Inl e
      | Inr prev_out \<Rightarrow>
          (case py_plus total_input (out_value prev_out) of
             Inl e \<Rightarrow> Inl e
           | Inr total_input' \<Rightarrow> sum_inputs c is total_input'))"

text \<open>
  Python's \<^verbatim>\<open>sum\<close>: starts at the int 0 and adds from the left. \<open>sum_values\<close> is the loop
  as it runs, from an accumulator; \<open>py_sum\<close> is the value it reaches when no addition
  raises.
\<close>

fun sum_values :: "pynum \<Rightarrow> pynum list \<Rightarrow> error + pynum" where
  "sum_values acc [] = Inr acc"
| "sum_values acc (x # xs) =
     (case py_plus acc x of
        Inl e \<Rightarrow> Inl e
      | Inr acc' \<Rightarrow> sum_values acc' xs)"

definition py_sum :: "pynum list \<Rightarrow> pynum" where
  "py_sum xs = foldl py_add (PyInt 0) xs"

definition calculate_transaction_fee :: "client \<Rightarrow> decoded_tx \<Rightarrow> error + pynum" where
  "calculate_transaction_fee c tx =
     (case sum_inputs c (vin tx) (PyInt 0) of
        Inl e \<Rightarrow> Inl e
      | Inr total_input \<Rightarrow>
          (case sum_values (PyInt 0) (map out_value (vout tx)) of
             Inl e \<Rightarrow> Inl e
           | Inr total_output \<Rightarrow> py_minus total_output total_input))"

definition extract_input_details :: "client \<Rightarrow> decoded_tx \<Rightarrow> error + (string \<times> pynum)" where
  "extract_input_details c tx =
     (case vin tx of
        [] \<Rightarrow> Inl IndexError
      | first_vin # _ \<Rightarrow>
          (case prev_output c first_vin of
             Inl e \<Rightarrow> Inl e
           | Inr prev_out \<Rightarrow>
               (case addresses (scriptPubKey prev_out) of
                  None \<Rightarrow> Inl (KeyError ''addresses'')
                | Some [] \<Rightarrow> Inl IndexError
                | Some (input_address # _) \<Rightarrow> Inr (input_address, out_value prev_out))))"

section \<open>Output classification\<close>

text \<open>
  The loop of \<^verbatim>\<open>extract_output_details\<close>, with the three local variables as the state.
  \<^verbatim>\<open>script_pubkey['addresses'][0]\<close> raises on an empty list.
\<close>

fun classify_loop ::
  "tx_out list \<Rightarrow> string \<Rightarrow> pynum \<times> pynum \<times> string \<Rightarrow> error + (pynum \<times> pynum \<times> string)" where
  "classify_loop [] trader_address st = Inr st"
| "classify_loop (v # vs) trader_address (trader_amount, change_amount, change_address) =
     (case addresses (scriptPubKey v) of
        None \<Rightarrow> classify_loop vs trader_address (trader_amount, change_amount, change_address)
      | Some addrs \<Rightarrow>
          if trader_address \<in> set addrs
          then classify_loop vs trader_address (out_value v, change_amount, change_address)
          else (case addrs of
                  [] \<Rightarrow> Inl IndexError
                | a # _ \<Rightarrow> classify_loop vs trader_address (trader_amount, out_value v, a)))"

definition extract_output_details ::
  "decoded_tx \<Rightarrow> string \<Rightarrow> error + (string \<times> pynum \<times> pynum)" where
  "extract_output_details tx trader_address =
     (case classify_loop (vout tx) trader_address (PyInt 0, PyInt 0, '''') of
        Inl e \<Rightarrow> Inl e
      | Inr (trader_amount, change_amount, change_address) \<Rightarrow>
          Inr (change_address, change_amount, trader_amount))"

section \<open>Rendering numbers\<close>

text \<open>
  Python's \<^verbatim>\<open>str\<close> of an \<^verbatim>\<open>int\<close>: decimal digits, a minus sign for a negative number.
\<close>

definition digit_char :: "nat \<Rightarrow> char" where
  "digit_char d = ''0123456789'' ! d"

fun nat_str :: "nat \<Rightarrow> string" where
  "nat_str n = (if n < 10 then [digit_char n] else nat_str (n div 10) @ [digit_char (n mod 10)])"

declare nat_str.simps [simp del]

definition int_str :: "int \<Rightarrow> string" where
  "int_str i = (if i < 0 then CHR ''-'' # nat_str (nat (- i)) else nat_str (nat i))"

text \<open>
  Python's \<^verbatim>\<open>str\<close> of a float in positional notation: the integer part, a point, and the
  digits of the fraction up to the last non-zero one (at least one digit, so \<^verbatim>\<open>30.0\<close>).
  \<open>frac_digits\<close> stops after 17 digits. This is what Python prints for a float that is
  the nearest double of a decimal with at most 15 significant digits and magnitude in
  \<open>[1e-4, 1e16)\<close>, or zero; the exponent notation of other floats is not modelled.
\<close>

fun frac_digits :: "nat \<Rightarrow> rat \<Rightarrow> string" where
  "frac_digits 0 x = []"
| "frac_digits (Suc k) x =
     (let d = \<lfloor>x * 10\<rfloor>; x' = x * 10 - of_int d
      in digit_char (nat d) # (if x' = 0 then [] else frac_digits k x'))"

definition float_str :: "rat \<Rightarrow> string" where
  "float_str x =
     (let a = \<bar>x\<bar>; n = \<lfloor>a\<rfloor>
      in (if x < 0 then ''-'' else []) @ nat_str (nat n) @ ''.'' @ frac_digits 17 (a - of_int n))"

text \<open>
  Python's \<^verbatim>\<open>str\<close> of a decimal with coefficient \<open>c\<close> and exponent \<open>-k\<close>: with \<open>n\<close> digits
  in the coefficient, positional notation with all \<open>k\<close> fractional digits when
  \<open>n - k > -6\<close>, else one digit before the point and the exponent after \<^verbatim>\<open>E\<close>
  (\<^verbatim>\<open>50.00000000\<close>, \<^verbatim>\<open>0.00000141\<close>, but \<^verbatim>\<open>1E-8\<close> and \<^verbatim>\<open>0E-8\<close>).
\<close>

definition decimal_str :: "int \<Rightarrow> nat \<Rightarrow> string" where
  "decimal_str c k =
     (let digits = nat_str (nat \<bar>c\<bar>);
          n = length digits;
          sign = (if c < 0 then ''-'' else [])
      in if int n - int k > - 6
         then (if n \<le> k
               then sign @ ''0.'' @ replicate (k - n) CHR ''0'' @ digits
               else sign @ take (n - k) digits
                      @ (if k = 0 then [] else ''.'' @ drop (n - k) digits))
         else sign @ take 1 digits @ (if 1 < n then ''.'' @ drop 1 digits else [])
                @ ''E'' @ int_str (int n - int k - 1))"

fun py_str :: "pynum \<Rightarrow> string" where
  "py_str (PyInt a) = int_str a"
| "py_str (PyFloat x) = float_str x"
| "py_str (PyDecimal c k) = decimal_str c k"

section \<open>The report writer and the top level\<close>

text \<open>
  What the program can observe and change outside itself: the content of \<^verbatim>\<open>out.txt\<close>
  (\<open>None\<close> while the file does not exist), whether it can be opened for writing, its
  path as printed, the lines printed so far, and the interpreter: an \<^verbatim>\<open>int\<close> has the
  method \<^verbatim>\<open>is_integer\<close> from Python 3.12 on, and not before.
\<close>

record world =
  out_file :: "string option"
  out_writable :: bool
  output_path :: string
  stdout :: "string list"
  int_has_is_integer :: bool

abbreviation newline :: char where
  "newline \<equiv> CHR 0x0A"

text \<open>One \<^verbatim>\<open>f.write(f"{s}\n")\<close> on the text written so far.\<close>

definition f_write :: "string \<Rightarrow> string \<Rightarrow> string" where
  "f_write f s = f @ s @ [newline]"

text \<open>
  The call \<^verbatim>\<open>x.is_integer()\<close>: a float has the method, an \<^verbatim>\<open>int\<close> has it from Python 3.12
  on, a \<^verbatim>\<open>decimal.Decimal\<close> does not; without the method the call raises
  \<^verbatim>\<open>AttributeError\<close>.
\<close>

definition call_is_integer :: "world \<Rightarrow> pynum \<Rightarrow> error + bool" where
  "call_is_integer w x =
     (case x of
        PyInt a \<Rightarrow> if int_has_is_integer w then Inr (is_integer x) else Inl (AttributeError ''int'')
      | PyFloat r \<Rightarrow> Inr (is_integer x)
      | PyDecimal c k \<Rightarrow> Inl (AttributeError ''decimal.Decimal''))"

text \<open>
  \<^verbatim>\<open>write_output_file\<close>: \<^verbatim>\<open>open(output_path, 'w')\<close> raises when the file cannot be opened,
  else it truncates the file; ten writes follow, then the file is closed and the path
  printed. An exception inside the \<^verbatim>\<open>with\<close> block closes the file with what was written
  before it: the result is then the exception and the world with that partial file.
\<close>

definition write_output_file ::
  "world \<Rightarrow> string \<Rightarrow> string \<Rightarrow> pynum \<Rightarrow> string \<Rightarrow> pynum \<Rightarrow> string \<Rightarrow> pynum \<Rightarrow> pynum \<Rightarrow> int \<Rightarrow> string
     \<Rightarrow> (error \<times> world) + world" where
  "write_output_file w txid input_address input_amount trader_address trader_amount
       change_address change_amount fee block_height block_hash =
     (if \<not> out_writable w then Inl (OSError, w)
      else
        let f = [];
            f = f_write f txid;
            f = f_write f input_address
        in (case call_is_integer w input_amount of
              Inl e \<Rightarrow> Inl (e, w\<lparr>out_file := Some f\<rparr>)
            | Inr input_whole \<Rightarrow>
                let f = (if input_whole
                         then f_write f (int_str (py_int input_amount))
                         else f_write f (py_str input_amount));
                    f = f_write f trader_address
                in (case call_is_integer w trader_amount of
                      Inl e \<Rightarrow> Inl (e, w\<lparr>out_file := Some f\<rparr>)
                    | Inr trader_whole \<Rightarrow>
                        let f = (if trader_whole
                                 then f_write f (int_str (py_int trader_amount))
                                 else f_write f (py_str trader_amount));
                            f = f_write f change_address;
                            f = f_write f (py_str change_amount);
                            f = f_write f (py_str fee);
                            f = f_write f (int_str block_height);
                            f = f_write f block_hash
                        in Inr (w\<lparr>out_file := Some f,
                                  stdout := stdout w @ [''Output written to: '' @ output_path w]\<rparr>))))"

text \<open>
  The two handlers of \<^verbatim>\<open>main\<close>: \<^verbatim>\<open>JSONRPCException\<close> prints the node's error, every other
  exception its \<^verbatim>\<open>str\<close>.
\<close>

fun error_str :: "error \<Rightarrow> string" where
  "error_str (JSONRPCException m) = m"
| "error_str (KeyError k) = quote k"
| "error_str IndexError = ''list index out of range''"
| "error_str OSError = ''cannot open file''"
| "error_str (AttributeError t) = quote t @ '' object has no attribute '' @ quote ''is_integer''"
| "error_str (TypeError m) = m"
| "error_str AddressResolutionError = []"

fun diagnostic :: "error \<Rightarrow> string" where
  "diagnostic (JSONRPCException m) = ''JSON-RPC Error: '' @ m"
| "diagnostic e = ''Error occurred: '' @ error_str e"

text \<open>
  Lines 72 to 89 of \<^verbatim>\<open>main\<close>: everything between the confirmation of the transaction and
  the call of \<^verbatim>\<open>write_output_file\<close>. The result is the ten arguments of that call.
\<close>

type_synonym report_fields =
  "string \<times> string \<times> pynum \<times> string \<times> pynum \<times> string \<times> pynum \<times> pynum \<times> int \<times> string"

definition derive_fields :: "client \<Rightarrow> string \<Rightarrow> string \<Rightarrow> string \<Rightarrow> error + report_fields" where
  "derive_fields c txid trader_receive_address confirm_block_hash =
     (case getrawtransaction c txid of
        Inl e \<Rightarrow> Inl e
      | Inr raw_tx \<Rightarrow>
     (case decoderawtransaction c raw_tx of
        Inl e \<Rightarrow> Inl e
      | Inr tx \<Rightarrow>
     (case getblock c confirm_block_hash of
        Inl e \<Rightarrow> Inl e
      | Inr info \<Rightarrow>
     (let block_height = height info in
     (case calculate_transaction_fee c tx of
        Inl e \<Rightarrow> Inl e
      | Inr fee \<Rightarrow>
     (case extract_input_details c tx of
        Inl e \<Rightarrow> Inl e
      | Inr (input_address, input_amount) \<Rightarrow>
     (case extract_output_details tx trader_receive_address of
        Inl e \<Rightarrow> Inl e
      | Inr (change_address, change_amount, trader_amount) \<Rightarrow>
          Inr (txid, input_address, input_amount, trader_receive_address, trader_amount,
               change_address, change_amount, fee, block_height, confirm_block_hash))))))))"

text \<open>
  \<^verbatim>\<open>main\<close>, from the point where the wallet calls of lines 10 to 69 have either raised
  (\<open>Inl\<close>) or produced the transaction id, the trader's address and the hash of the
  confirming block. The body of the \<^verbatim>\<open>try\<close> is \<open>main_body\<close>, which ends in an exception
  and the world it leaves, or in the final world; \<open>main\<close> adds the handlers.
\<close>

definition main_body ::
  "client \<Rightarrow> error + (string \<times> string \<times> string) \<Rightarrow> world \<Rightarrow> (error \<times> world) + world" where
  "main_body c setup w =
     (case setup of
        Inl e \<Rightarrow> Inl (e, w)
      | Inr (txid, trader_receive_address, confirm_block_hash) \<Rightarrow>
          (case derive_fields c txid trader_receive_address confirm_block_hash of
             Inl e \<Rightarrow> Inl (e, w)
           | Inr (txid, input_address, input_amount, trader_address, trader_amount,
                  change_address, change_amount, fee, block_height, block_hash) \<Rightarrow>
               write_output_file w txid input_address input_amount trader_address trader_amount
                 change_address change_amount fee block_height block_hash))"

definition main :: "client \<Rightarrow> error + (string \<times> string \<times> string) \<Rightarrow> world \<Rightarrow> world" where
  "main c setup w =
     (case main_body c setup w of
        Inl (e, w') \<Rightarrow> w'\<lparr>stdout := stdout w' @ [diagnostic e]\<rparr>
      | Inr w' \<Rightarrow> w')"

section \<open>Predicates on outputs\<close>

text \<open>
  The two branches of the classifier's loop: an output whose script has the key
  \<^verbatim>\<open>addresses\<close> is the trader's when the trader's address is in the list, a change output
  otherwise. \<open>addresses_nonempty\<close> holds of an output whose address list, when there is
  one, has an element; \<open>is_addressed\<close> holds of an output that has at least one address.
\<close>

definition is_trader_output :: "string \<Rightarrow> tx_out \<Rightarrow> bool" where
  "is_trader_output trader_address v =
     (case addresses (scriptPubKey v) of None \<Rightarrow> False | Some addrs \<Rightarrow> trader_address \<in> set addrs)"

definition is_change_output :: "string \<Rightarrow> tx_out \<Rightarrow> bool" where
  "is_change_output trader_address v =
     (case addresses (scriptPubKey v) of None \<Rightarrow> False | Some addrs \<Rightarrow> trader_address \<notin> set addrs)"

definition addresses_nonempty :: "tx_out \<Rightarrow> bool" where
  "addresses_nonempty v = (addresses (scriptPubKey v) \<noteq> Some [])"

definition is_addressed :: "tx_out \<Rightarrow> bool" where
  "is_addressed v =
     (case addresses (scriptPubKey v) of None \<Rightarrow> False | Some [] \<Rightarrow> False | Some (a # _) \<Rightarrow> True)"

section \<open>Example transactions\<close>

definition mk_out :: "pynum \<Rightarrow> string list option \<Rightarrow> tx_out" where
  "mk_out x a = \<lparr>out_value = x, scriptPubKey = \<lparr>addresses = a\<rparr>\<rparr>"

text \<open>
  A prior transaction \<^verbatim>\<open>T1\<close> with three outputs (the second without address), and a
  payment \<^verbatim>\<open>T2\<close> that spends its first output: 20 to the trader, 29.5 back as change.
\<close>

definition ex_prev_tx :: decoded_tx where
  "ex_prev_tx =
     \<lparr>vin = [CoinbaseIn],
      vout = [mk_out (PyFloat 50) (Some [''miner'']),
              mk_out (PyFloat 5) None,
              mk_out (PyFloat (101 / 2)) (Some [''miner''])]\<rparr>"

definition ex_tx :: decoded_tx where
  "ex_tx =
     \<lparr>vin = [TxIn ''T1'' 0],
      vout = [mk_out (PyFloat 20) (Some [''trader'']),
              mk_out (PyFloat (59 / 2)) (Some [''change''])]\<rparr>"

text \<open>\<^verbatim>\<open>T3\<close> spends the output of \<^verbatim>\<open>T1\<close> that has no address; \<^verbatim>\<open>T4\<close> spends an output of
  a transaction the node does not know.\<close>

definition ex_tx_noaddr :: decoded_tx where
  "ex_tx_noaddr =
     \<lparr>vin = [TxIn ''T1'' 1],
      vout = [mk_out (PyFloat 4) (Some [''trader''])]\<rparr>"

definition ex_tx_orphan :: decoded_tx where
  "ex_tx_orphan =
     \<lparr>vin = [TxIn ''T9'' 0],
      vout = [mk_out (PyFloat 20) (Some [''trader''])]\<rparr>"

text \<open>\<^verbatim>\<open>T5\<close> spends the 50.5 output of \<^verbatim>\<open>T1\<close>: 20 to the trader and 30 back as change.\<close>

definition ex_tx_whole :: decoded_tx where
  "ex_tx_whole =
     \<lparr>vin = [TxIn ''T1'' 2],
      vout = [mk_out (PyFloat 20) (Some [''trader'']),
              mk_out (PyFloat 30) (Some [''change''])]\<rparr>"

definition ex_client :: client where
  "ex_client =
     \<lparr>getrawtransaction = (\<lambda>t.
        if t = ''T1'' then Inr ''raw1''
        else if t = ''T2'' then Inr ''raw2''
        else if t = ''T3'' then Inr ''raw3''
        else if t = ''T4'' then Inr ''raw4''
        else if t = ''T5'' then Inr ''raw5''
        else Inl (JSONRPCException ''No such mempool or blockchain transaction'')),
      decoderawtransaction = (\<lambda>r.
        if r = ''raw1'' then Inr ex_prev_tx
        else if r = ''raw2'' then Inr ex_tx
        else if r = ''raw3'' then Inr ex_tx_noaddr
        else if r = ''raw4'' then Inr ex_tx_orphan
        else if r = ''raw5'' then Inr ex_tx_whole
        else Inl (JSONRPCException ''TX decode failed'')),
      getblock = (\<lambda>h.
        if h = ''B1'' then Inr \<lparr>height = 102\<rparr>
        else Inl (JSONRPCException ''Block not found''))\<rparr>"

text \<open>The node of \<open>ex_client\<close> read through a decoder that makes a decimal of every
  number with a fraction: each amount with its eight fractional digits.\<close>

definition to_decimal :: "pynum \<Rightarrow> pynum" where
  "to_decimal x = (case x of PyFloat r \<Rightarrow> PyDecimal \<lfloor>r * 10 ^ 8\<rfloor> 8 | _ \<Rightarrow> x)"

definition decimal_tx :: "decoded_tx \<Rightarrow> decoded_tx" where
  "decimal_tx tx = tx\<lparr>vout := map (\<lambda>v. v\<lparr>out_value := to_decimal (out_value v)\<rparr>) (vout tx)\<rparr>"

definition ex_client_decimal :: client where
  "ex_client_decimal =
     ex_client\<lparr>decoderawtransaction := (\<lambda>r.
        case decoderawtransaction ex_client r of
          Inl e \<Rightarrow> Inl e
        | Inr tx \<Rightarrow> Inr (decimal_tx tx))\<rparr>"

text \<open>A world without report file, on an interpreter before Python 3.12.\<close>

definition ex_world :: world where
  "ex_world =
     \<lparr>out_file = None, out_writable = True, output_path = ''../out.txt'', stdout = [],
      int_has_is_integer = False\<rparr>"

text \<open>Output lists for the classifier: two change outputs; two change outputs followed by
  an output whose address list is empty; an output with an empty address list alone.\<close>

definition ex_two_change :: decoded_tx where
  "ex_two_change =
     \<lparr>vin = [TxIn ''T1'' 0],
      vout = [mk_out (PyFloat 1) (Some [''B'']),
              mk_out (PyFloat 20) (Some [''A'']),
              mk_out (PyFloat 2) (Some [''C'', ''D''])]\<rparr>"

definition ex_two_change_empty :: decoded_tx where
  "ex_two_change_empty =
     \<lparr>vin = [TxIn ''T1'' 0],
      vout = [mk_out (PyFloat 1) (Some [''B'']),
              mk_out (PyFloat 2) (Some [''C'']),
              mk_out (PyFloat 3) (Some [])]\<rparr>"

definition ex_empty_addresses :: decoded_tx where
  "ex_empty_addresses =
     \<lparr>vin = [TxIn ''T1'' 0],
      vout = [mk_out (PyFloat 3) (Some [])]\<rparr>"

section \<open>Fee calculation\<close>

lemma prev_output_resolved:
  "getrawtransaction c t = Inr raw \<Longrightarrow> decoderawtransaction c raw = Inr prev \<Longrightarrow>
   n < length (vout prev) \<Longrightarrow> prev_output c (TxIn t n) = Inr (vout prev ! n)"
  by (simp add: prev_output_def)

text \<open>
  On ints and floats no addition raises, and the loop of \<^verbatim>\<open>sum\<close> reaches the value
  \<open>py_sum\<close> gives.
\<close>

lemma sum_values_no_decimal:
  "\<forall>x \<in> set (acc # xs). type_name x \<noteq> ''decimal.Decimal'' \<Longrightarrow>
   sum_values acc xs = Inr (foldl py_add acc xs)"
proof (induction xs arbitrary: acc)
  case Nil
  then show ?case by simp
next
  case (Cons x xs)
  from Cons.prems have a: "type_name acc \<noteq> ''decimal.Decimal''"
    and b: "type_name x \<noteq> ''decimal.Decimal''" by simp_all
  from a b have p: "py_plus acc x = Inr (py_add acc x)"
    by (cases acc; cases x) (simp_all add: py_plus_def)
  from a b have t: "type_name (py_add acc x) \<noteq> ''decimal.Decimal''"
    by (cases acc; cases x) simp_all
  from Cons.prems t have "\<forall>y \<in> set (py_add acc x # xs). type_name y \<noteq> ''decimal.Decimal''"
    by simp
  from Cons.IH [OF this] p show ?case by simp
qed

text \<open>
  C1. The claim: the fee returned is the sum of the resolved input amounts minus the sum
  of the declared output values. On the payment \<^verbatim>\<open>T2\<close>, whose only input resolves to an
  output of 50 and whose outputs are 20 and 29.5, that difference is 0.5; the function
  returns -0.5, since line 120 subtracts the inputs from the outputs.
\<close>

theorem calculate_transaction_fee_negated:
  "prev_output ex_client (TxIn ''T1'' 0) = Inr (mk_out (PyFloat 50) (Some [''miner''])) \<and>
   py_sub (py_sum [PyFloat 50]) (py_sum (map out_value (vout ex_tx))) = PyFloat (1 / 2) \<and>
   calculate_transaction_fee ex_client ex_tx = Inr (PyFloat (- 1 / 2))"
  by code_simp

section \<open>Input resolution\<close>

text \<open>
  C2. When the transaction has a first input, the node returns and decodes the prior
  transaction it names, the index is within that transaction's outputs, and the output
  has a non-empty address list, \<^verbatim>\<open>extract_input_details\<close> returns the first address of
  the list and the value of the output.
\<close>

theorem extract_input_details_first_address:
  assumes "vin tx = TxIn t n # rest"
    and "getrawtransaction c t = Inr raw"
    and "decoderawtransaction c raw = Inr prev"
    and "n < length (vout prev)"
    and "addresses (scriptPubKey (vout prev ! n)) = Some (a # as)"
  shows "extract_input_details c tx = Inr (a, out_value (vout prev ! n))"
  using assms by (simp add: extract_input_details_def prev_output_resolved)

theorem extract_input_details_first_address_witness:
  "vin ex_tx = TxIn ''T1'' 0 # [] \<and> getrawtransaction ex_client ''T1'' = Inr ''raw1'' \<and>
   decoderawtransaction ex_client ''raw1'' = Inr ex_prev_tx \<and> 0 < length (vout ex_prev_tx) \<and>
   addresses (scriptPubKey (vout ex_prev_tx ! 0)) = Some (''miner'' # []) \<and>
   extract_input_details ex_client ex_tx = Inr (''miner'', PyFloat 50)"
proof -
  have h1: "vin ex_tx = TxIn ''T1'' 0 # []" by (simp add: ex_tx_def)
  have h2: "getrawtransaction ex_client ''T1'' = Inr ''raw1''" by (simp add: ex_client_def)
  have h3: "decoderawtransaction ex_client ''raw1'' = Inr ex_prev_tx" by (simp add: ex_client_def)
  have h4: "0 < length (vout ex_prev_tx)" by (simp add: ex_prev_tx_def)
  have h5: "addresses (scriptPubKey (vout ex_prev_tx ! 0)) = Some (''miner'' # [])"
    by (simp add: ex_prev_tx_def mk_out_def)
  have v: "out_value (vout ex_prev_tx ! 0) = PyFloat 50" by (simp add: ex_prev_tx_def mk_out_def)
  show ?thesis
    using extract_input_details_first_address [OF h1 h2 h3 h4 h5] h1 h2 h3 h4 h5 v by simp
qed

text \<open>
  C3, as stated: when the output referenced by the first input has no address set, the
  resolution fails with an \<open>AddressResolutionError\<close>. The payment \<^verbatim>\<open>T3\<close> spends such an
  output; the lookup of the missing key raises \<^verbatim>\<open>KeyError\<close>, which is another exception.
\<close>

theorem extract_input_details_error_class_counterexample:
  "extract_input_details ex_client ex_tx_noaddr = Inl (KeyError ''addresses'') \<and>
   extract_input_details ex_client ex_tx_noaddr \<noteq> Inl AddressResolutionError"
  by code_simp

text \<open>
  C3, amended: when the output referenced by the first input has no address set,
  \<^verbatim>\<open>extract_input_details\<close> returns no result and raises \<^verbatim>\<open>KeyError\<close>; when the address
  list is there and empty, it raises \<^verbatim>\<open>IndexError\<close>.
\<close>

theorem extract_input_details_missing_address:
  assumes "vin tx = TxIn t n # rest"
    and "getrawtransaction c t = Inr raw"
    and "decoderawtransaction c raw = Inr prev"
    and "n < length (vout prev)"
    and "addresses (scriptPubKey (vout prev ! n)) = None \<or>
         addresses (scriptPubKey (vout prev ! n)) = Some []"
  shows "extract_input_details c tx =
           Inl (if addresses (scriptPubKey (vout prev ! n)) = None
                then KeyError ''addresses'' else IndexError)"
  using assms by (auto simp: extract_input_details_def prev_output_resolved)

theorem extract_input_details_missing_address_witness:
  "vin ex_tx_noaddr = TxIn ''T1'' 1 # [] \<and> getrawtransaction ex_client ''T1'' = Inr ''raw1'' \<and>
   decoderawtransaction ex_client ''raw1'' = Inr ex_prev_tx \<and> 1 < length (vout ex_prev_tx) \<and>
   addresses (scriptPubKey (vout ex_prev_tx ! 1)) = None \<and>
   extract_input_details ex_client ex_tx_noaddr = Inl (KeyError ''addresses'')"
proof -
  have h1: "vin ex_tx_noaddr = TxIn ''T1'' 1 # []" by (simp add: ex_tx_noaddr_def)
  have h2: "getrawtransaction ex_client ''T1'' = Inr ''raw1''" by (simp add: ex_client_def)
  have h3: "decoderawtransaction ex_client ''raw1'' = Inr ex_prev_tx" by (simp add: ex_client_def)
  have h4: "1 < length (vout ex_prev_tx)" by (simp add: ex_prev_tx_def)
  have h5: "addresses (scriptPubKey (vout ex_prev_tx ! 1)) = None"
    by (simp add: ex_prev_tx_def mk_out_def)
  show ?thesis
    using extract_input_details_missing_address [OF h1 h2 h3 h4 disjI1 [OF h5]] h1 h2 h3 h4 h5
    by simp
qed

section \<open>The report file\<close>

text \<open>
  When the file can be opened and both calls of \<^verbatim>\<open>is_integer\<close> return, the writer ends
  normally and the file holds the ten fields in the order of the ten writes, each followed
  by a newline.
\<close>

lemma write_output_file_complete:
  assumes "out_writable w"
    and "call_is_integer w input_amount = Inr input_whole"
    and "call_is_integer w trader_amount = Inr trader_whole"
  shows "write_output_file w txid input_address input_amount trader_address trader_amount
           change_address change_amount fee block_height block_hash =
         Inr (w\<lparr>out_file := Some (concat (map (\<lambda>s. s @ [newline])
                [txid, input_address,
                 if input_whole then int_str (py_int input_amount) else py_str input_amount,
                 trader_address,
                 if trader_whole then int_str (py_int trader_amount) else py_str trader_amount,
                 change_address, py_str change_amount, py_str fee, int_str block_height,
                 block_hash])),
              stdout := stdout w @ [''Output written to: '' @ output_path w]\<rparr>)"
  using assms by (simp add: write_output_file_def f_write_def Let_def)

text \<open>
  C4. The claim: the report file consists of exactly ten newline-terminated lines. Lines
  173 and 178 call \<^verbatim>\<open>is_integer\<close> on the input amount and on the trader amount, inside the
  \<^verbatim>\<open>with\<close> block. When the node's amounts are decoded as decimals, the fields \<^verbatim>\<open>main\<close>
  derives for the payment \<^verbatim>\<open>T5\<close> are decimals, the first call raises \<^verbatim>\<open>AttributeError\<close>
  and the file is left with two lines. With floats, and a recipient that no output pays,
  the trader amount is the int 0 of line 136: before Python 3.12 the second call raises
  and the file is left with four lines.
\<close>

theorem write_output_file_partial_report:
  "derive_fields ex_client_decimal ''T5'' ''trader'' ''B1'' =
     Inr (''T5'', ''miner'', PyDecimal 5050000000 8, ''trader'', PyDecimal 2000000000 8,
          ''change'', PyDecimal 3000000000 8, PyDecimal (- 50000000) 8, 102, ''B1'') \<and>
   write_output_file ex_world ''T5'' ''miner'' (PyDecimal 5050000000 8) ''trader''
       (PyDecimal 2000000000 8) ''change'' (PyDecimal 3000000000 8) (PyDecimal (- 50000000) 8)
       102 ''B1'' =
     Inl (AttributeError ''decimal.Decimal'',
          ex_world\<lparr>out_file := Some (concat (map (\<lambda>s. s @ [newline]) [''T5'', ''miner'']))\<rparr>) \<and>
   main ex_client_decimal (Inr (''T5'', ''trader'', ''B1'')) ex_world =
     ex_world\<lparr>out_file := Some (concat (map (\<lambda>s. s @ [newline]) [''T5'', ''miner''])),
              stdout := [diagnostic (AttributeError ''decimal.Decimal'')]\<rparr> \<and>
   derive_fields ex_client ''T2'' ''nobody'' ''B1'' =
     Inr (''T2'', ''miner'', PyFloat 50, ''nobody'', PyInt 0, ''change'', PyFloat (59 / 2),
          PyFloat (- 1 / 2), 102, ''B1'') \<and>
   main ex_client (Inr (''T2'', ''nobody'', ''B1'')) ex_world =
     ex_world\<lparr>out_file := Some (concat (map (\<lambda>s. s @ [newline])
                  [''T2'', ''miner'', ''50'', ''nobody''])),
              stdout := [diagnostic (AttributeError ''int'')]\<rparr>"
  by code_simp

text \<open>
  C5. The claim: a whole input, recipient or change amount is written without a decimal
  point. The payment \<^verbatim>\<open>T5\<close> spends 50.5 and pays 20 to the trader and 30 back as change;
  these are the fields \<^verbatim>\<open>main\<close> derives for it. The whole input and trader amounts pass
  through \<^verbatim>\<open>is_integer\<close> and \<^verbatim>\<open>int\<close> (lines 173 to 181), the change amount is written as
  it is (line 183): the file has \<^verbatim>\<open>20\<close> for the trader and \<^verbatim>\<open>30.0\<close> for the change.
\<close>

theorem write_output_file_change_amount_not_collapsed:
  "derive_fields ex_client ''T5'' ''trader'' ''B1'' =
     Inr (''T5'', ''miner'', PyFloat (101 / 2), ''trader'', PyFloat 20, ''change'', PyFloat 30,
          PyFloat (- 1 / 2), 102, ''B1'') \<and>
   is_integer (PyFloat 30) \<and>
   write_output_file ex_world ''T5'' ''miner'' (PyFloat (101 / 2)) ''trader'' (PyFloat 20)
       ''change'' (PyFloat 30) (PyFloat (- 1 / 2)) 102 ''B1'' =
     Inr (ex_world\<lparr>out_file := Some (concat (map (\<lambda>s. s @ [newline])
            [''T5'', ''miner'', ''50.5'', ''trader'', ''20'', ''change'', ''30.0'', ''-0.5'',
             ''102'', ''B1''])),
          stdout := [''Output written to: ../out.txt'']\<rparr>)"
  by code_simp

section \<open>The classifier\<close>

lemma classify_loop_skip:
  "addresses (scriptPubKey v) = None \<Longrightarrow>
   classify_loop (xs @ v # ys) r st = classify_loop (xs @ ys) r st"
proof (induction xs arbitrary: st)
  case Nil
  then show ?case by (cases st) simp
next
  case (Cons x xs)
  then show ?case by (cases st) (simp split: option.splits list.splits)
qed

text \<open>
  The loop on a list without empty address lists: each variable keeps its initial value
  or takes the value the last output of its kind gives it.
\<close>

lemma classify_loop_result:
  "\<forall>v \<in> set vs. addresses_nonempty v \<Longrightarrow>
   classify_loop vs r (ta, ca, cad) =
     Inr ((case filter (is_trader_output r) vs of [] \<Rightarrow> ta | t # ts \<Rightarrow> out_value (last (t # ts))),
          (case filter (is_change_output r) vs of [] \<Rightarrow> ca | t # ts \<Rightarrow> out_value (last (t # ts))),
          (case filter (is_change_output r) vs of [] \<Rightarrow> cad
           | t # ts \<Rightarrow> hd (the (addresses (scriptPubKey (last (t # ts)))))))"
proof (induction vs arbitrary: ta ca cad)
  case Nil
  then show ?case by simp
next
  case (Cons v vs)
  then show ?case
    by (auto simp: is_trader_output_def is_change_output_def addresses_nonempty_def
             split: option.splits list.splits)
qed

lemma py_str_zero: "py_str (PyInt 0) = ''0''"
  by code_simp

text \<open>
  C6, as stated: for every output list with more than one output that has an address list
  without the recipient, the classifier returns the first address and the value of the
  last of them. In the list below three outputs have such a list and the last list is
  empty: \<^verbatim>\<open>script_pubkey['addresses'][0]\<close> raises \<^verbatim>\<open>IndexError\<close> and nothing is returned.
\<close>

theorem extract_output_details_empty_list_counterexample:
  "length (filter (is_change_output ''A'') (vout ex_two_change_empty)) = 3 \<and>
   extract_output_details ex_two_change_empty ''A'' = Inl IndexError"
  by code_simp

text \<open>
  C6, amended: for every output list in which no address list is empty and more than one
  output has an address list without the recipient, the classifier returns the first
  address and the value of the last such output.
\<close>

theorem extract_output_details_last_change:
  assumes wf: "\<forall>v \<in> set (vout tx). addresses_nonempty v"
    and many: "1 < length (filter (is_change_output r) (vout tx))"
  shows "\<exists>a as ta.
           addresses (scriptPubKey (last (filter (is_change_output r) (vout tx)))) = Some (a # as) \<and>
           extract_output_details tx r =
             Inr (a, out_value (last (filter (is_change_output r) (vout tx))), ta)"
proof -
  let ?cs = "filter (is_change_output r) (vout tx)"
  from many have ne: "?cs \<noteq> []" by auto
  then obtain t ts where cs: "?cs = t # ts" by (cases ?cs) auto
  from ne have "last ?cs \<in> set ?cs" by (rule last_in_set)
  then have mem: "last ?cs \<in> set (vout tx)" and chg: "is_change_output r (last ?cs)" by auto
  from chg obtain addrs where some: "addresses (scriptPubKey (last ?cs)) = Some addrs"
    by (auto simp: is_change_output_def split: option.splits)
  from wf mem some have "addrs \<noteq> []" by (auto simp: addresses_nonempty_def)
  then obtain a as where addrs: "addrs = a # as" by (cases addrs) auto
  have "extract_output_details tx r =
          Inr (a, out_value (last ?cs),
               (case filter (is_trader_output r) (vout tx) of
                  [] \<Rightarrow> PyInt 0 | t # ts \<Rightarrow> out_value (last (t # ts))))"
    using some addrs cs
    by (simp add: extract_output_details_def classify_loop_result [OF wf] del: last.simps)
  with some addrs show ?thesis by blast
qed

theorem extract_output_details_last_change_witness:
  "filter (\<lambda>v. \<not> addresses_nonempty v) (vout ex_two_change) = [] \<and>
   1 < length (filter (is_change_output ''A'') (vout ex_two_change)) \<and>
   last (filter (is_change_output ''A'') (vout ex_two_change)) = mk_out (PyFloat 2) (Some [''C'', ''D'']) \<and>
   (\<exists>ta. extract_output_details ex_two_change ''A'' = Inr (''C'', PyFloat 2, ta))"
proof -
  have wf: "\<forall>v \<in> set (vout ex_two_change). addresses_nonempty v"
    by (simp add: ex_two_change_def mk_out_def addresses_nonempty_def)
  have f: "filter (is_change_output ''A'') (vout ex_two_change) =
             [mk_out (PyFloat 1) (Some [''B'']), mk_out (PyFloat 2) (Some [''C'', ''D''])]"
    by (simp add: ex_two_change_def mk_out_def is_change_output_def)
  have many: "1 < length (filter (is_change_output ''A'') (vout ex_two_change))"
    by (simp add: f)
  have l: "last (filter (is_change_output ''A'') (vout ex_two_change)) = mk_out (PyFloat 2) (Some [''C'', ''D''])"
    by (simp add: f)
  from extract_output_details_last_change [OF wf many] obtain a as ta where
    "addresses (scriptPubKey (last (filter (is_change_output ''A'') (vout ex_two_change)))) = Some (a # as)"
    and "extract_output_details ex_two_change ''A'' =
           Inr (a, out_value (last (filter (is_change_output ''A'') (vout ex_two_change))), ta)"
    by blast
  then have "extract_output_details ex_two_change ''A'' = Inr (''C'', PyFloat 2, ta)"
    by (simp add: l mk_out_def)
  moreover have "filter (\<lambda>v. \<not> addresses_nonempty v) (vout ex_two_change) = []"
    using wf by (simp add: filter_empty_conv)
  ultimately show ?thesis using many l by blast
qed

text \<open>
  C7. An output whose script has no \<^verbatim>\<open>addresses\<close> key changes nothing: the classifier
  returns on the list with that output what it returns on the list without it, be it a
  triple or an exception raised by another output.
\<close>

theorem extract_output_details_skips_addressless:
  "addresses (scriptPubKey v) = None \<Longrightarrow>
   extract_output_details (tx\<lparr>vout := xs @ v # ys\<rparr>) r =
   extract_output_details (tx\<lparr>vout := xs @ ys\<rparr>) r"
  by (simp add: extract_output_details_def classify_loop_skip)

theorem extract_output_details_skips_addressless_witness:
  "addresses (scriptPubKey (mk_out (PyFloat 5) None)) = None \<and>
   extract_output_details
     (ex_tx\<lparr>vout := [mk_out (PyFloat 20) (Some [''trader''])] @ mk_out (PyFloat 5) None
                      # [mk_out (PyFloat (59 / 2)) (Some [''change''])]\<rparr>) ''trader'' =
   extract_output_details
     (ex_tx\<lparr>vout := [mk_out (PyFloat 20) (Some [''trader''])]
                      @ [mk_out (PyFloat (59 / 2)) (Some [''change''])]\<rparr>) ''trader'' \<and>
   extract_output_details
     (ex_tx\<lparr>vout := [mk_out (PyFloat 20) (Some [''trader''])]
                      @ [mk_out (PyFloat (59 / 2)) (Some [''change''])]\<rparr>) ''trader'' =
     Inr (''change'', PyFloat (59 / 2), PyFloat 20)"
proof -
  have h: "addresses (scriptPubKey (mk_out (PyFloat 5) None)) = None" by (simp add: mk_out_def)
  have e: "extract_output_details
     (ex_tx\<lparr>vout := [mk_out (PyFloat 20) (Some [''trader''])]
                      @ [mk_out (PyFloat (59 / 2)) (Some [''change''])]\<rparr>) ''trader'' =
     Inr (''change'', PyFloat (59 / 2), PyFloat 20)"
    by (simp add: extract_output_details_def mk_out_def)
  show ?thesis using extract_output_details_skips_addressless [OF h] h e by blast
qed

text \<open>
  C8, as stated: for every output list in which no address list contains the recipient,
  the classifier does not fail and returns a recipient amount of zero. The single output
  below has an empty address list, which does not contain the recipient; the classifier
  raises \<^verbatim>\<open>IndexError\<close>.
\<close>

theorem extract_output_details_no_trader_counterexample:
  "filter (is_trader_output ''A'') (vout ex_empty_addresses) = [] \<and>
   extract_output_details ex_empty_addresses ''A'' = Inl IndexError"
  by code_simp

text \<open>
  C8, amended: for every output list in which no address list is empty and none contains
  the recipient, the classifier returns a triple whose recipient amount is the int zero.
\<close>

theorem extract_output_details_no_trader_zero:
  assumes wf: "\<forall>v \<in> set (vout tx). addresses_nonempty v"
    and none: "\<forall>v \<in> set (vout tx). \<not> is_trader_output r v"
  shows "\<exists>change_address change_amount.
           extract_output_details tx r = Inr (change_address, change_amount, PyInt 0)"
proof -
  from none have "filter (is_trader_output r) (vout tx) = []" by (simp add: filter_empty_conv)
  then show ?thesis
    by (simp add: extract_output_details_def classify_loop_result [OF wf])
qed

theorem extract_output_details_no_trader_zero_witness:
  "filter (\<lambda>v. \<not> addresses_nonempty v) (vout ex_two_change) = [] \<and>
   filter (is_trader_output ''nobody'') (vout ex_two_change) = [] \<and>
   (\<exists>change_address change_amount.
      extract_output_details ex_two_change ''nobody'' = Inr (change_address, change_amount, PyInt 0))"
proof -
  have wf: "\<forall>v \<in> set (vout ex_two_change). addresses_nonempty v"
    by (simp add: ex_two_change_def mk_out_def addresses_nonempty_def)
  have none: "\<forall>v \<in> set (vout ex_two_change). \<not> is_trader_output ''nobody'' v"
    by (simp add: ex_two_change_def mk_out_def is_trader_output_def)
  have f1: "filter (\<lambda>v. \<not> addresses_nonempty v) (vout ex_two_change) = []"
    using wf by (simp add: filter_empty_conv)
  have f2: "filter (is_trader_output ''nobody'') (vout ex_two_change) = []"
    using none by (simp add: filter_empty_conv)
  show ?thesis using extract_output_details_no_trader_zero [OF wf none] f1 f2 by blast
qed

text \<open>
  C10, as stated: for every output list with no addressed output whose address set lacks
  the recipient, the classifier returns the empty string and zero. The single output
  below has an empty address list: it has no address, so the list has no such output, and
  the classifier raises \<^verbatim>\<open>IndexError\<close>.
\<close>

theorem extract_output_details_no_change_counterexample:
  "filter (\<lambda>v. is_addressed v \<and> is_change_output ''A'' v) (vout ex_empty_addresses) = [] \<and>
   extract_output_details ex_empty_addresses ''A'' = Inl IndexError"
  by code_simp

text \<open>
  C10, amended: for every output list in which no address list is empty and no addressed
  output's address set lacks the recipient, the classifier returns the empty string as
  change address and the int zero as change amount; and when the file can be opened and
  the two calls of \<^verbatim>\<open>is_integer\<close> return, the report written with them has an empty sixth
  line and \<^verbatim>\<open>0\<close> as its seventh.
\<close>

theorem extract_output_details_no_change_empty_line:
  assumes wf: "\<forall>v \<in> set (vout tx). addresses_nonempty v"
    and none: "\<forall>v \<in> set (vout tx). \<not> (is_addressed v \<and> is_change_output r v)"
  shows "\<exists>trader_amount.
           extract_output_details tx r = Inr ('''', PyInt 0, trader_amount) \<and>
           (out_writable w \<and> call_is_integer w input_amount = Inr input_whole \<and>
            call_is_integer w trader_amount = Inr trader_whole \<longrightarrow>
            write_output_file w txid input_address input_amount r trader_amount
                '''' (PyInt 0) fee block_height block_hash =
              Inr (w\<lparr>out_file := Some (concat (map (\<lambda>s. s @ [newline])
                     [txid, input_address,
                      if input_whole then int_str (py_int input_amount) else py_str input_amount,
                      r,
                      if trader_whole then int_str (py_int trader_amount)
                      else py_str trader_amount,
                      '''', ''0'', py_str fee, int_str block_height, block_hash])),
                   stdout := stdout w @ [''Output written to: '' @ output_path w]\<rparr>))"
proof -
  have "\<not> is_change_output r v" if "v \<in> set (vout tx)" for v
  proof
    assume c: "is_change_output r v"
    from wf that have "addresses_nonempty v" by blast
    with c have "is_addressed v"
      by (auto simp: is_change_output_def addresses_nonempty_def is_addressed_def
               split: option.splits list.splits)
    with none that c show False by blast
  qed
  then have "filter (is_change_output r) (vout tx) = []" by (simp add: filter_empty_conv)
  then have e: "extract_output_details tx r =
      Inr ('''', PyInt 0, (case filter (is_trader_output r) (vout tx) of
                            [] \<Rightarrow> PyInt 0 | t # ts \<Rightarrow> out_value (last (t # ts))))"
    by (simp add: extract_output_details_def classify_loop_result [OF wf])
  show ?thesis
    unfolding e
    by (simp add: write_output_file_complete py_str_zero del: py_str.simps)
qed

theorem extract_output_details_no_change_empty_line_witness:
  "filter (\<lambda>v. \<not> addresses_nonempty v) (vout ex_tx_orphan) = [] \<and>
   filter (\<lambda>v. is_addressed v \<and> is_change_output ''trader'' v) (vout ex_tx_orphan) = [] \<and>
   out_writable ex_world \<and>
   call_is_integer ex_world (PyFloat 50) = Inr True \<and>
   call_is_integer ex_world (PyFloat 20) = Inr True \<and>
   extract_output_details ex_tx_orphan ''trader'' = Inr ('''', PyInt 0, PyFloat 20) \<and>
   write_output_file ex_world ''T4'' ''miner'' (PyFloat 50) ''trader'' (PyFloat 20)
       '''' (PyInt 0) (PyFloat (- 1 / 2)) 102 ''B1'' =
     Inr (ex_world\<lparr>out_file := Some (concat (map (\<lambda>s. s @ [newline])
            [''T4'', ''miner'', ''50'', ''trader'', ''20'', '''', ''0'', ''-0.5'', ''102'',
             ''B1''])),
          stdout := [''Output written to: ../out.txt'']\<rparr>)"
proof -
  have wf: "\<forall>v \<in> set (vout ex_tx_orphan). addresses_nonempty v"
    by (simp add: ex_tx_orphan_def mk_out_def addresses_nonempty_def)
  have none: "\<forall>v \<in> set (vout ex_tx_orphan). \<not> (is_addressed v \<and> is_change_output ''trader'' v)"
    by (simp add: ex_tx_orphan_def mk_out_def is_change_output_def)
  have wr: "out_writable ex_world" by (simp add: ex_world_def)
  have i1: "call_is_integer ex_world (PyFloat 50) = Inr True" by (simp add: call_is_integer_def)
  have i2: "call_is_integer ex_world (PyFloat 20) = Inr True" by (simp add: call_is_integer_def)
  have ex: "extract_output_details ex_tx_orphan ''trader'' = Inr ('''', PyInt 0, PyFloat 20)"
    by code_simp
  have r1: "int_str (py_int (PyFloat 50)) = ''50''" by code_simp
  have r2: "int_str (py_int (PyFloat 20)) = ''20''" by code_simp
  have r3: "py_str (PyFloat (- (1 / 2))) = ''-0.5''" by code_simp
  have r4: "int_str 102 = ''102''" by code_simp
  have st: "stdout ex_world = []" and op: "output_path ex_world = ''../out.txt''"
    by (simp_all add: ex_world_def)
  from extract_output_details_no_change_empty_line [OF wf none,
         where w = ex_world and input_amount = "PyFloat 50" and input_whole = True
           and trader_whole = True and txid = "''T4''" and input_address = "''miner''"
           and fee = "PyFloat (- 1 / 2)" and block_height = 102 and block_hash = "''B1''"]
  have "write_output_file ex_world ''T4'' ''miner'' (PyFloat 50) ''trader'' (PyFloat 20)
       '''' (PyInt 0) (PyFloat (- 1 / 2)) 102 ''B1'' =
     Inr (ex_world\<lparr>out_file := Some (concat (map (\<lambda>s. s @ [newline])
            [''T4'', ''miner'', ''50'', ''trader'', ''20'', '''', ''0'', ''-0.5'', ''102'',
             ''B1''])),
          stdout := [''Output written to: ../out.txt'']\<rparr>)"
    using ex wr i1 i2 by (simp add: r1 r2 r3 r4 st op del: py_str.simps py_int.simps)
  moreover have "filter (\<lambda>v. \<not> addresses_nonempty v) (vout ex_tx_orphan) = []"
    using wf by (simp add: filter_empty_conv)
  moreover have
    "filter (\<lambda>v. is_addressed v \<and> is_change_output ''trader'' v) (vout ex_tx_orphan) = []"
    using none by (simp add: filter_empty_conv)
  ultimately show ?thesis using wr i1 i2 ex by blast
qed

section \<open>The top level\<close>

text \<open>
  C9. When a step before the call of \<^verbatim>\<open>write_output_file\<close> raises (a wallet call of the
  first part, or the derivation of a field, for instance the lookup of a prior transaction
  the node does not know), \<^verbatim>\<open>main\<close> prints one diagnostic and changes nothing else: the
  report file is as it was.
\<close>

theorem main_error_no_report:
  assumes "setup = Inl e \<or>
           (\<exists>txid trader_receive_address confirm_block_hash.
              setup = Inr (txid, trader_receive_address, confirm_block_hash) \<and>
              derive_fields c txid trader_receive_address confirm_block_hash = Inl e)"
  shows "main c setup w = w\<lparr>stdout := stdout w @ [diagnostic e]\<rparr> \<and>
         out_file (main c setup w) = out_file w"
  using assms by (auto simp: main_def main_body_def)

theorem main_error_no_report_witness:
  "derive_fields ex_client ''T4'' ''trader'' ''B1'' =
     Inl (JSONRPCException ''No such mempool or blockchain transaction'') \<and>
   main ex_client (Inr (''T4'', ''trader'', ''B1'')) ex_world =
     ex_world\<lparr>stdout := [''JSON-RPC Error: No such mempool or blockchain transaction'']\<rparr> \<and>
   out_file (main ex_client (Inr (''T4'', ''trader'', ''B1'')) ex_world) = None"
proof -
  have d: "derive_fields ex_client ''T4'' ''trader'' ''B1'' =
     Inl (JSONRPCException ''No such mempool or blockchain transaction'')"
    by code_simp
  have h: "Inr (''T4'', ''trader'', ''B1'') = Inl (JSONRPCException ''No such mempool or blockchain transaction'') \<or>
           (\<exists>txid trader_receive_address confirm_block_hash.
              (Inr (''T4'', ''trader'', ''B1'') :: error + (string \<times> string \<times> string))
                 = Inr (txid, trader_receive_address, confirm_block_hash) \<and>
              derive_fields ex_client txid trader_receive_address confirm_block_hash =
                Inl (JSONRPCException ''No such mempool or blockchain transaction''))"
    using d by blast
  show ?thesis using main_error_no_report [OF h, of ex_world] d by (simp add: ex_world_def)
qed

end
